theory Spec2Isabelle
  imports Complex_Main
begin

section \<open>Common Python notions\<close>

text \<open>
  Exceptions are values. A dictionary key is an integer (category ids) or a string
  (label-type selectors, configuration sections). \<open>OtherError\<close> stands for any
  exception raised by the environment (file system, image decoder, framework).
\<close>

datatype key = IntKey int | StrKey string

datatype error =
    AttributeError string
  | KeyError key
  | IndexError
  | ZeroDivisionError
  | StopIteration
  | OtherError string

text \<open>
  Subscripting a Python list: an index from \<open>-len\<close> to \<open>-1\<close> counts from the end,
  and an index outside \<open>-len .. len - 1\<close> raises \<open>IndexError\<close>.
\<close>

definition py_index :: "'a list \<Rightarrow> int \<Rightarrow> error + 'a" where
  "py_index xs idx =
     (if 0 \<le> idx \<and> idx < int (length xs) then Inr (xs ! nat idx)
      else if idx < 0 \<and> - int (length xs) \<le> idx then Inr (xs ! nat (int (length xs) + idx))
      else Inl IndexError)"

text \<open>Python's \<open>range(a, b)\<close> over unbounded integers.\<close>

definition py_range :: "int \<Rightarrow> int \<Rightarrow> int list" where
  "py_range a b = [a..b - 1]"

text \<open>\<open>os.path.join\<close> of two components on a POSIX system.\<close>

definition os_path_join :: "string \<Rightarrow> string \<Rightarrow> string" where
  "os_path_join a b =
     (if b \<noteq> [] \<and> hd b = CHR ''/'' then b
      else if a = [] \<or> last a = CHR ''/'' then a @ b
      else a @ ''/'' @ b)"

subsection \<open>The logger\<close>

text \<open>
  The process-wide logger \<open>log\<close> is imported from \<open>src.utils.util\<close>, which is not part
  of the sources at hand. It is a parameter here: the list of the method names the
  object offers. Calling a method it does not offer raises \<open>AttributeError\<close>, as any
  attribute lookup on a Python object does; calling one it offers appends a line
  (method name and message) to the log. Elapsed wall-clock times, which the messages
  of the engine also carry, are left out of the messages.
\<close>

record logger =
  methods :: "string list"

datatype log_msg =
    Msg string
  | GPUsUsed nat
  | TrainingStarts int int
  | TrainBatch nat nat real
  | EpochTrain int real
  | EpochVal int real real

type_synonym log_lines = "(string \<times> log_msg) list"

definition log_call :: "logger \<Rightarrow> string \<Rightarrow> log_msg \<Rightarrow> log_lines \<Rightarrow> error + log_lines" where
  "log_call lg name msg lines =
     (if name \<in> set (methods lg) then Inr (lines @ [(name, msg)])
      else Inl (AttributeError name))"

section \<open>datasets.py: the NACTI dataset adapter\<close>

text \<open>
  The class constants \<open>BINARY\<close>, \<open>MULTI\<close> and \<open>LABEL_TYPES\<close>. A dict literal with
  distinct keys is the map of its association list.
\<close>

definition BINARY_items :: "(int \<times> int) list" where
  "BINARY_items =
     [(1,1), (3,1), (4,1), (5,1), (6,1), (7,1), (9,1), (10,1), (11,1), (12,1), (13,1),
      (14,1), (15,1), (16,0), (17,1), (18,1), (19,1), (21,1), (22,1), (23,1), (24,1),
      (26,1), (27,1), (28,1), (29,1), (30,1), (31,1), (32,1), (33,1), (34,1), (35,1),
      (36,1), (37,1), (38,1), (40,1), (41,1), (42,1), (43,1), (44,1), (46,1), (47,1),
      (50,1), (53,1), (54,1), (55,1), (56,1), (57,1), (58,1), (59,1), (60,1), (62,1),
      (63,1), (64,1), (65,1), (66,1), (67,1), (68,0), (69,1), (70,1)]"

definition BINARY :: "int \<rightharpoonup> int" where
  "BINARY = map_of BINARY_items"

definition MULTI :: "int \<rightharpoonup> int" where
  "MULTI = Map.empty"

definition LABEL_TYPES :: "string \<rightharpoonup> (int \<rightharpoonup> int)" where
  "LABEL_TYPES = [''binary'' \<mapsto> BINARY, ''multi'' \<mapsto> MULTI]"

text \<open>
  The annotation file, once parsed: the array \<open>images\<close> (the \<open>file_name\<close> of each
  entry) and the array \<open>annotations\<close> (the \<open>category_id\<close> of each entry).
\<close>

record metadata =
  images :: "string list"
  annotations :: "int list"

text \<open>
  The file system is a parameter: what \<open>json.load(open(path))\<close> and
  \<open>Image.open(path)\<close> give for a path, an exception or a value. Images are values of
  an arbitrary type \<open>'img\<close>; a transform maps an image to an image or raises.
\<close>

record 'img files =
  json_load :: "string \<Rightarrow> error + metadata"
  Image_open :: "string \<Rightarrow> error + 'img"

record 'img nacti =
  data_dir :: string
  nacti_metadata :: metadata
  label_map :: "int \<rightharpoonup> int"
  transform :: "('img \<Rightarrow> error + 'img) option"

text \<open>
  What a call does to the outside world, in order: the files it opens and the lines
  it logs.
\<close>

datatype event = Opened string | Logged string log_msg

text \<open>
  \<open>NACTI.__init__\<close>. The metadata file is loaded first. An unrecognised selector is
  logged with \<open>log.error\<close>, and the lookup \<open>self.LABEL_TYPES[label_type]\<close> that follows
  raises \<open>KeyError\<close>.
\<close>

definition NACTI_init ::
  "logger \<Rightarrow> 'img files \<Rightarrow> string \<Rightarrow> string \<Rightarrow> ('img \<Rightarrow> error + 'img) option
     \<Rightarrow> event list \<times> (error + 'img nacti)" where
  "NACTI_init lg fs dir label_type tr =
     (let metadata_path = os_path_join dir ''nacti_metadata_tmp.json'' in
      case json_load fs metadata_path of
        Inl err \<Rightarrow> ([Opened metadata_path], Inl err)
      | Inr md \<Rightarrow>
          (case (if LABEL_TYPES label_type = None
                 then log_call lg ''error''
                        (Msg ''Specify right type for NACTI dataset - binary or multi'') []
                 else Inr []) of
             Inl err \<Rightarrow> ([Opened metadata_path], Inl err)
           | Inr lines \<Rightarrow>
               (let evs = Opened metadata_path # map (\<lambda>(n, m). Logged n m) lines in
                case LABEL_TYPES label_type of
                  None \<Rightarrow> (evs, Inl (KeyError (StrKey label_type)))
                | Some m \<Rightarrow>
                    (evs, Inr \<lparr>data_dir = dir, nacti_metadata = md,
                               label_map = m, transform = tr\<rparr>))))"

definition NACTI_len :: "'img nacti \<Rightarrow> nat" where
  "NACTI_len ds = length (annotations (nacti_metadata ds))"

text \<open>
  \<open>NACTI.__getitem__\<close>: the image is opened before the label is looked up, and the
  transform is applied after the lookup.
\<close>

definition NACTI_getitem :: "'img files \<Rightarrow> 'img nacti \<Rightarrow> int \<Rightarrow> error + ('img \<times> int)" where
  "NACTI_getitem fs ds idx =
     (case py_index (images (nacti_metadata ds)) idx of
        Inl err \<Rightarrow> Inl err
      | Inr file_name \<Rightarrow>
          (case Image_open fs (os_path_join (data_dir ds) file_name) of
             Inl err \<Rightarrow> Inl err
           | Inr img \<Rightarrow>
               (case py_index (annotations (nacti_metadata ds)) idx of
                  Inl err \<Rightarrow> Inl err
                | Inr original_label \<Rightarrow>
                    (case label_map ds original_label of
                       None \<Rightarrow> Inl (KeyError (IntKey original_label))
                     | Some label \<Rightarrow>
                         (case transform ds of
                            None \<Rightarrow> Inr (img, label)
                          | Some t \<Rightarrow>
                              (case t img of
                                 Inl err \<Rightarrow> Inl err
                               | Inr img' \<Rightarrow> Inr (img', label)))))))"

section \<open>engine.py: the training and evaluation engine\<close>

text \<open>
  Tensors, the model, the optimizer and the criterion belong to the framework. What the
  engine's own arithmetic consumes of one batch is recorded here: \<open>inputs.size(0)\<close>,
  the value of \<open>criterion(outputs, labels)\<close>, the value of
  \<open>criterion(aux_outputs, labels)\<close> (architectures with an auxiliary output), and the
  value of \<open>torch.sum(predictions == labels.data)\<close> for the arg-max predictions and for
  the thresholded-sigmoid predictions. Floating-point numbers are idealised as reals,
  and the framework's calls are taken to return.
\<close>

record batch =
  batch_size :: nat
  loss :: real
  aux_loss :: real
  corrects_max :: nat
  corrects_gt :: nat

text \<open>A checkpoint dictionary: its \<open>epoch\<close> entry (the two state entries are opaque).\<close>

record checkpoint =
  epoch :: int

text \<open>
  The configuration sections the engine reads. \<open>dict.get(key, default)\<close> is a case on
  an optional field; \<open>dict[key]\<close> on a missing key raises \<open>KeyError\<close>.
\<close>

record train_config =
  cfg_save_dir :: "string option"
  cfg_num_epochs :: "int option"

record eval_config =
  cfg_use_roc :: "bool option"

record config =
  data_sec :: "unit option"
  model_sec :: "unit option"
  train_sec :: "train_config option"
  eval_sec :: "eval_config option"

text \<open>
  The second component of \<open>model_builder.build\<close>'s result, a dictionary. The builders
  are not part of the sources at hand; what they return is a parameter, together with
  what the framework answers to \<open>torch.cuda.is_available()\<close> and
  \<open>torch.cuda.device_count()\<close>.
\<close>

record misc =
  misc_model_name :: "string option"
  misc_num_classes :: "int option"
  misc_checkpoint :: "checkpoint option"
  misc_is_inception :: "bool option"

record builders =
  cuda_is_available :: bool
  cuda_device_count :: nat
  built_misc :: misc
  built_train_len :: nat
  built_val_len :: nat
  built_eval_len :: nat

text \<open>
  The engine object: its instance attributes. \<open>train_len\<close>, \<open>val_len\<close> and \<open>eval_len\<close>
  are \<open>len(self.dataloader[split].dataset)\<close>. Python objects are open: the attribute
  \<open>num_clsses\<close>, which \<open>_val\<close> and \<open>_eval\<close> read, is present only if something has
  assigned it, so it is optional here (\<open>None\<close>: the object has no such attribute).
\<close>

record engine =
  engine_log :: logger
  config :: config
  tag :: string
  device :: string
  data_parallel :: bool
  train_len :: nat
  val_len :: nat
  eval_len :: nat
  model_name :: string
  num_classes :: int
  checkpoint :: "checkpoint option"
  is_inception :: bool
  num_clsses :: "int option"

text \<open>
  \<open>BaseEngine.__init__\<close>, from the device choice on (\<open>load_config\<close> and
  \<open>generate_tag\<close> are utilities outside the sources at hand; their results are the
  \<open>config\<close> and \<open>tag\<close> given to \<open>Engine_init\<close>). The \<open>cpu\<close> branch calls \<open>log.warn\<close>, the
  other branch calls \<open>log.ward\<close>.
\<close>

definition BaseEngine_init :: "logger \<Rightarrow> bool \<Rightarrow> log_lines \<times> (error + string)" where
  "BaseEngine_init lg cuda =
     (let dev = (if cuda then ''cuda'' else ''cpu'') in
      case (if dev = ''cpu''
            then log_call lg ''warn''
                   (Msg ''GPU is not available. Please check the configuration.'') []
            else log_call lg ''ward'' (Msg ''GPU is available.'') []) of
        Inl err \<Rightarrow> ([], Inl err)
      | Inr lines \<Rightarrow> (lines, Inr dev))"

text \<open>\<open>Engine.__init__\<close>. It assigns \<open>num_classes\<close>; nothing assigns \<open>num_clsses\<close>.\<close>

definition Engine_init ::
  "logger \<Rightarrow> builders \<Rightarrow> config \<Rightarrow> string \<Rightarrow> log_lines \<times> (error + engine)" where
  "Engine_init lg bd cfg tg =
     (case BaseEngine_init lg (cuda_is_available bd) of
        (lines, Inl err) \<Rightarrow> (lines, Inl err)
      | (lines, Inr dev) \<Rightarrow>
          (case data_sec cfg of
             None \<Rightarrow> (lines, Inl (KeyError (StrKey ''data'')))
           | Some _ \<Rightarrow>
          (case model_sec cfg of
             None \<Rightarrow> (lines, Inl (KeyError (StrKey ''model'')))
           | Some _ \<Rightarrow>
          (case (if 1 < cuda_device_count bd
                 then log_call lg ''warn'' (GPUsUsed (cuda_device_count bd)) lines
                 else Inr lines) of
             Inl err \<Rightarrow> (lines, Inl err)
           | Inr lines' \<Rightarrow>
          (case misc_model_name (built_misc bd) of
             None \<Rightarrow> (lines', Inl (KeyError (StrKey ''model_name'')))
           | Some name \<Rightarrow>
          (case misc_num_classes (built_misc bd) of
             None \<Rightarrow> (lines', Inl (KeyError (StrKey ''num_classes'')))
           | Some n \<Rightarrow>
          (case train_sec cfg of
             None \<Rightarrow> (lines', Inl (KeyError (StrKey ''train'')))
           | Some _ \<Rightarrow>
               (lines', Inr \<lparr>engine_log = lg, config = cfg, tag = tg, device = dev,
                  data_parallel = (1 < cuda_device_count bd),
                  train_len = built_train_len bd, val_len = built_val_len bd,
                  eval_len = built_eval_len bd,
                  model_name = name, num_classes = n,
                  checkpoint = misc_checkpoint (built_misc bd),
                  is_inception = (case misc_is_inception (built_misc bd) of
                                    None \<Rightarrow> False | Some b \<Rightarrow> b),
                  num_clsses = None\<rparr>))))))))"

subsection \<open>One training pass\<close>

text \<open>
  The body of the loop of \<open>_train_one_epoch\<close> over \<open>enumerate(self.dataloader['train'])\<close>:
  \<open>i\<close> is the batch index, \<open>nb\<close> the number of batches, \<open>tot\<close> the running
  \<open>total_loss\<close>.
\<close>

definition train_batch_loss :: "engine \<Rightarrow> batch \<Rightarrow> real" where
  "train_batch_loss e b =
     (if is_inception e then loss b + (4 / 10) * aux_loss b else loss b)"

fun train_batches ::
  "engine \<Rightarrow> nat \<Rightarrow> nat \<Rightarrow> batch list \<Rightarrow> real \<Rightarrow> log_lines \<Rightarrow> log_lines \<times> (error + real)" where
  "train_batches e nb i [] tot lines = (lines, Inr tot)"
| "train_batches e nb i (b # bs) tot lines =
     (let l = train_batch_loss e b;
          tot' = tot + l * real (batch_size b)
      in case log_call (engine_log e) ''info'' (TrainBatch i nb l) lines of
           Inl err \<Rightarrow> (lines, Inl err)
         | Inr lines' \<Rightarrow> train_batches e nb (Suc i) bs tot' lines')"

definition Engine_train_one_epoch ::
  "engine \<Rightarrow> batch list \<Rightarrow> log_lines \<Rightarrow> log_lines \<times> (error + real)" where
  "Engine_train_one_epoch e bs lines =
     (case train_batches e (length bs) 0 bs 0 lines of
        (lines', Inl err) \<Rightarrow> (lines', Inl err)
      | (lines', Inr total_loss) \<Rightarrow>
          if train_len e = 0 then (lines', Inl ZeroDivisionError)
          else (lines', Inr (total_loss / real (train_len e))))"

subsection \<open>One validation pass\<close>

text \<open>
  The loop of \<open>_val\<close>: every iteration reads \<open>self.num_clsses\<close>. After the loop,
  \<open>total_loss / len(dataset)\<close> is a Python division, and \<open>num_corrects.double()\<close> needs
  \<open>num_corrects\<close> to be a tensor, which it is once a batch has been added to the
  initial integer \<open>0\<close>.
\<close>

fun val_batches :: "engine \<Rightarrow> batch list \<Rightarrow> real \<times> nat \<Rightarrow> error + real \<times> nat" where
  "val_batches e [] acc = Inr acc"
| "val_batches e (b # bs) (total_loss, num_corrects) =
     (case num_clsses e of
        None \<Rightarrow> Inl (AttributeError ''num_clsses'')
      | Some k \<Rightarrow>
          val_batches e bs
            (total_loss + loss b * real (batch_size b),
             num_corrects + (if 1 < k then corrects_max b else corrects_gt b)))"

definition Engine_val :: "engine \<Rightarrow> batch list \<Rightarrow> error + real \<times> real" where
  "Engine_val e bs =
     (case val_batches e bs (0, 0) of
        Inl err \<Rightarrow> Inl err
      | Inr (total_loss, num_corrects) \<Rightarrow>
          if val_len e = 0 then Inl ZeroDivisionError
          else if bs = [] then Inl (AttributeError ''double'')
          else Inr (total_loss / real (val_len e), real num_corrects / real (val_len e)))"

subsection \<open>Evaluation\<close>

text \<open>
  \<open>_eval\<close> draws from the evaluation iterator with \<open>next()\<close>: the iterator is the list
  of the batches it has yet to yield, and the call returns the iterator it leaves
  behind. \<open>save_roc\<close> is a utility outside the sources at hand: the parameter
  \<open>save_roc\<close> is the exception it raises, if any.
\<close>

definition Engine_eval ::
  "error option \<Rightarrow> engine \<Rightarrow> eval_config \<Rightarrow> batch list \<Rightarrow> batch list \<times> (error + real \<times> real)" where
  "Engine_eval save_roc e eval_config it =
     (let use_roc = (case cfg_use_roc eval_config of None \<Rightarrow> False | Some u \<Rightarrow> u) in
      case it of
        [] \<Rightarrow> ([], Inl StopIteration)
      | b # rest \<Rightarrow>
          (case num_clsses e of
             None \<Rightarrow> (rest, Inl (AttributeError ''num_clsses''))
           | Some k \<Rightarrow>
               (case (if 1 < k then None else if use_roc then save_roc else None) of
                  Some err \<Rightarrow> (rest, Inl err)
                | None \<Rightarrow>
                    (let total_loss = 0 + loss b * real (batch_size b);
                         num_corrects = 0 + (if 1 < k then corrects_max b else corrects_gt b)
                     in if eval_len e = 0 then (rest, Inl ZeroDivisionError)
                        else (rest, Inr (total_loss / real (eval_len e),
                                         real num_corrects / real (eval_len e)))))))"

text \<open>\<open>BaseEngine.eval\<close>: the pair that \<open>_eval\<close> returns is dropped.\<close>

definition BaseEngine_eval ::
  "error option \<Rightarrow> engine \<Rightarrow> batch list \<Rightarrow> batch list \<times> (error + unit)" where
  "BaseEngine_eval save_roc e it =
     (case eval_sec (config e) of
        None \<Rightarrow> (it, Inl (KeyError (StrKey ''eval'')))
      | Some ec \<Rightarrow>
          (case Engine_eval save_roc e ec it of
             (it', Inl err) \<Rightarrow> (it', Inl err)
           | (it', Inr _) \<Rightarrow> (it', Inr ())))"

subsection \<open>The epoch loop\<close>

text \<open>
  The outcomes of the batches depend on the model's parameters, which every optimizer
  step changes: the parameter \<open>world\<close> gives, for each epoch, the batches of the
  training pass and of the validation pass of that epoch as the framework computes
  them, and the utility \<open>save_path\<close>.
\<close>

record world =
  train_run :: "int \<Rightarrow> batch list"
  val_run :: "int \<Rightarrow> batch list"
  save_path :: "string \<Rightarrow> string \<Rightarrow> string \<Rightarrow> string"

text \<open>
  The state of a call of \<open>_train\<close>: its local variables \<open>best_acc\<close> and
  \<open>val_accuracies\<close>, the checkpoints written so far (path and content, in the order of
  the \<open>torch.save\<close> calls) and the lines logged so far. An exception ends the call and
  leaves the files and the log as they are.
\<close>

record train_state =
  best_acc :: real
  val_accuracies :: "real list"
  saved :: "(string \<times> checkpoint) list"
  logged :: log_lines

definition Engine_save_model :: "world \<Rightarrow> engine \<Rightarrow> string \<Rightarrow> int \<Rightarrow> string \<times> checkpoint" where
  "Engine_save_model w e save_dir ep =
     (save_path w save_dir (model_name e) (tag e), \<lparr>epoch = ep\<rparr>)"

definition epoch_body ::
  "world \<Rightarrow> engine \<Rightarrow> string \<Rightarrow> int \<Rightarrow> train_state \<Rightarrow> train_state \<times> error option" where
  "epoch_body w e save_dir ep st =
     (case Engine_train_one_epoch e (train_run w ep) (logged st) of
        (l1, Inl err) \<Rightarrow> (st\<lparr>logged := l1\<rparr>, Some err)
      | (l1, Inr train_loss) \<Rightarrow>
          (case log_call (engine_log e) ''info'' (EpochTrain ep train_loss) l1 of
             Inl err \<Rightarrow> (st\<lparr>logged := l1\<rparr>, Some err)
           | Inr l2 \<Rightarrow>
               (case Engine_val e (val_run w ep) of
                  Inl err \<Rightarrow> (st\<lparr>logged := l2\<rparr>, Some err)
                | Inr (val_loss, val_acc) \<Rightarrow>
                    (let st1 = (if best_acc st < val_acc
                                then st\<lparr>best_acc := val_acc,
                                        saved := saved st @ [Engine_save_model w e save_dir ep]\<rparr>
                                else st);
                         st2 = st1\<lparr>val_accuracies := val_accuracies st1 @ [val_acc],
                                   logged := l2\<rparr>
                     in case log_call (engine_log e) ''infov'' (EpochVal ep val_loss val_acc) l2 of
                          Inl err \<Rightarrow> (st2, Some err)
                        | Inr l3 \<Rightarrow> (st2\<lparr>logged := l3\<rparr>, None)))))"

fun run_epochs ::
  "world \<Rightarrow> engine \<Rightarrow> string \<Rightarrow> int list \<Rightarrow> train_state \<Rightarrow> train_state \<times> error option" where
  "run_epochs w e save_dir [] st = (st, None)"
| "run_epochs w e save_dir (ep # eps) st =
     (case epoch_body w e save_dir ep st of
        (st', Some err) \<Rightarrow> (st', Some err)
      | (st', None) \<Rightarrow> run_epochs w e save_dir eps st')"

text \<open>The first lines of \<open>_train\<close>: the epoch the loop starts from and its bound.\<close>

definition start_epoch :: "engine \<Rightarrow> int" where
  "start_epoch e = (case checkpoint e of None \<Rightarrow> 0 | Some c \<Rightarrow> epoch c)"

definition num_epochs :: "engine \<Rightarrow> train_config \<Rightarrow> int" where
  "num_epochs e train_config =
     (let n = (case cfg_num_epochs train_config of None \<Rightarrow> 50 | Some n \<Rightarrow> n)
      in if n < start_epoch e then start_epoch e + 50 else n)"

definition Engine_train :: "world \<Rightarrow> engine \<Rightarrow> train_config \<Rightarrow> train_state \<times> error option" where
  "Engine_train w e train_config =
     (let save_dir = (case cfg_save_dir train_config of None \<Rightarrow> ''checkpoints'' | Some d \<Rightarrow> d);
          st0 = \<lparr>best_acc = 0, val_accuracies = [], saved = [], logged = []\<rparr>
      in case log_call (engine_log e) ''info''
                (TrainingStarts (num_epochs e train_config) (start_epoch e)) [] of
           Inl err \<Rightarrow> (st0, Some err)
         | Inr l0 \<Rightarrow>
             run_epochs w e save_dir (py_range (start_epoch e) (num_epochs e train_config))
               (st0\<lparr>logged := l0\<rparr>))"

text \<open>\<open>BaseEngine.train\<close>.\<close>

definition BaseEngine_train :: "world \<Rightarrow> engine \<Rightarrow> train_state \<times> error option" where
  "BaseEngine_train w e =
     (case train_sec (config e) of
        None \<Rightarrow> (\<lparr>best_acc = 0, val_accuracies = [], saved = [], logged = []\<rparr>,
                 Some (KeyError (StrKey ''train'')))
      | Some tc \<Rightarrow> Engine_train w e tc)"

text \<open>
  Reading a run off its log: the epochs whose closing line
  (\<open>Epoch {} completed ... val loss ...\<close>) was logged, that is, the epochs the loop
  ran to their end.
\<close>

fun epochs_completed :: "log_lines \<Rightarrow> int list" where
  "epochs_completed [] = []"
| "epochs_completed ((n, EpochVal ep vl va) # ls) = ep # epochs_completed ls"
| "epochs_completed (_ # ls) = epochs_completed ls"

text \<open>
  The steps of \<open>__getitem__\<close> that concern the image alone, in the order they run:
  the entry of \<open>images\<close>, the file, the transform. It serves to state what
  \<open>NACTI_getitem\<close> returns; the source has no such function.
\<close>

definition image_steps :: "'img files \<Rightarrow> 'img nacti \<Rightarrow> int \<Rightarrow> error + 'img" where
  "image_steps fs ds idx =
     (case py_index (images (nacti_metadata ds)) idx of
        Inl err \<Rightarrow> Inl err
      | Inr file_name \<Rightarrow>
          (case Image_open fs (os_path_join (data_dir ds) file_name) of
             Inl err \<Rightarrow> Inl err
           | Inr img \<Rightarrow>
               (case transform ds of None \<Rightarrow> Inr img | Some t \<Rightarrow> t img)))"

text \<open>
  The epochs at which a sequence of validation accuracies improves on the best so
  far, \<open>best\<close> being the best before the sequence and \<open>ep\<close> the epoch of its head.
\<close>

fun improvements :: "real \<Rightarrow> int \<Rightarrow> real list \<Rightarrow> int list" where
  "improvements best ep [] = []"
| "improvements best ep (a # as) =
     (if best < a then ep # improvements a (ep + 1) as
      else improvements best (ep + 1) as)"

text \<open>The epoch numbers recorded in the checkpoints written, in the order of the writes.\<close>

definition saved_epochs :: "train_state \<Rightarrow> int list" where
  "saved_epochs st = map (\<lambda>(path, c). epoch c) (saved st)"

section \<open>Example inputs\<close>

definition ex_logger :: logger where
  "ex_logger = \<lparr>methods = [''info'', ''warn'', ''error'', ''infov'']\<rparr>"

definition ex_metadata :: metadata where
  "ex_metadata = \<lparr>images = [''a.jpg'', ''b.jpg''], annotations = [1, 16]\<rparr>"

text \<open>A directory \<open>data\<close> with the metadata file and two images (images are numbers).\<close>

definition ex_files :: "nat files" where
  "ex_files =
     \<lparr>json_load = (\<lambda>p. if p = ''data/nacti_metadata_tmp.json'' then Inr ex_metadata
                        else Inl (OtherError ''FileNotFoundError'')),
      Image_open = (\<lambda>p. if p = ''data/a.jpg'' then Inr 10
                         else if p = ''data/b.jpg'' then Inr 20
                         else Inl (OtherError ''FileNotFoundError''))\<rparr>"

definition ex_binary :: "nat nacti" where
  "ex_binary = \<lparr>data_dir = ''data'', nacti_metadata = ex_metadata,
                 label_map = BINARY, transform = None\<rparr>"

definition ex_config :: config where
  "ex_config = \<lparr>data_sec = Some (), model_sec = Some (),
                 train_sec = Some \<lparr>cfg_save_dir = None, cfg_num_epochs = Some 3\<rparr>,
                 eval_sec = Some \<lparr>cfg_use_roc = None\<rparr>\<rparr>"

text \<open>A single-logit model without a checkpoint, on a machine without accelerator.\<close>

definition ex_builders :: builders where
  "ex_builders =
     \<lparr>cuda_is_available = False, cuda_device_count = 0,
      built_misc = \<lparr>misc_model_name = Some ''resnet18'', misc_num_classes = Some 1,
                     misc_checkpoint = None, misc_is_inception = None\<rparr>,
      built_train_len = 20, built_val_len = 20, built_eval_len = 20\<rparr>"

text \<open>The engine that \<open>Engine_init\<close> builds from these.\<close>

definition ex_engine :: engine where
  "ex_engine =
     \<lparr>engine_log = ex_logger, config = ex_config, tag = ''t'', device = ''cpu'',
      data_parallel = False, train_len = 20, val_len = 20, eval_len = 20,
      model_name = ''resnet18'', num_classes = 1, checkpoint = None,
      is_inception = False, num_clsses = None\<rparr>"

text \<open>The same engine after an assignment \<open>engine.num_clsses = 1\<close>.\<close>

definition ex_engine_patched :: engine where
  "ex_engine_patched = ex_engine\<lparr>num_clsses := Some 1\<rparr>"

definition ex_batch :: "real \<Rightarrow> nat \<Rightarrow> batch" where
  "ex_batch l c = \<lparr>batch_size = 20, loss = l, aux_loss = 0, corrects_max = c, corrects_gt = c\<rparr>"

text \<open>
  A run whose validation pass is one batch of the twenty samples, with 14, 13 and 18
  correct predictions in the epochs 0, 1 and 2, and none later on.
\<close>

definition ex_world :: world where
  "ex_world =
     \<lparr>train_run = (\<lambda>ep. [ex_batch 1 0]),
      val_run = (\<lambda>ep. [ex_batch 1 (if ep = 0 then 14 else if ep = 1 then 13
                                     else if ep = 2 then 18 else 0)]),
      save_path = (\<lambda>d n t. d @ ''/'' @ n @ ''_'' @ t)\<rparr>"

text \<open>A run in which no prediction is ever correct.\<close>

definition ex_world_zero :: world where
  "ex_world_zero = ex_world\<lparr>val_run := (\<lambda>ep. [ex_batch 1 0])\<rparr>"

text \<open>Two batches of 12 and 8 samples, for a pass over a dataset of 20.\<close>

definition ex_batches :: "batch list" where
  "ex_batches =
     [\<lparr>batch_size = 12, loss = 1 / 2, aux_loss = 0, corrects_max = 0, corrects_gt = 9\<rparr>,
      \<lparr>batch_size = 8, loss = 1 / 4, aux_loss = 0, corrects_max = 0, corrects_gt = 5\<rparr>]"

text \<open>The patched engine, resumed from a checkpoint of epoch \<open>E\<close>.\<close>

definition ex_engine_resumed :: "int \<Rightarrow> engine" where
  "ex_engine_resumed E = ex_engine_patched\<lparr>checkpoint := Some \<lparr>epoch = E\<rparr>\<rparr>"

definition ex_train_config :: "int \<Rightarrow> train_config" where
  "ex_train_config n = \<lparr>cfg_save_dir = None, cfg_num_epochs = Some n\<rparr>"

section \<open>Properties of the dataset adapter\<close>

lemma py_index_in_range:
  "0 \<le> i \<Longrightarrow> i < int (length xs) \<Longrightarrow> py_index xs i = Inr (xs ! nat i)"
  by (simp add: py_index_def Let_def)

lemma ex_init:
  "NACTI_init ex_logger ex_files ''data'' ''binary'' None
     = ([Opened ''data/nacti_metadata_tmp.json''], Inr ex_binary)"
  by (simp add: NACTI_init_def os_path_join_def ex_files_def LABEL_TYPES_def ex_binary_def)

lemma BINARY_1: "BINARY 1 = Some 1"
  by (simp add: BINARY_def BINARY_items_def)

lemma BINARY_16: "BINARY 16 = Some 0"
  by (simp add: BINARY_def BINARY_items_def)

text \<open>
  C5. An adapter that \<open>NACTI_init\<close> has built carries the label map of its (recognised)
  selector. If that map is defined on every category id of the annotation file, then
  for every index \<open>0 \<le> i < length()\<close> the label lookup of \<open>item(i)\<close> succeeds: the call
  returns whatever the image steps return (the decoded, transformed image, or their
  exception), and the label it returns with an image is the map's value at the raw
  category id of record \<open>i\<close>, an element of the map's range.
\<close>

theorem NACTI_getitem_label:
  assumes built: "NACTI_init lg fs dir label_type tr = (evs, Inr ds)"
    and total: "set (annotations (nacti_metadata ds)) \<subseteq> dom (label_map ds)"
    and lo: "0 \<le> i" and hi: "i < int (NACTI_len ds)"
  shows "LABEL_TYPES label_type = Some (label_map ds)
     \<and> (\<exists>l. label_map ds (annotations (nacti_metadata ds) ! nat i) = Some l
            \<and> l \<in> ran (label_map ds)
            \<and> NACTI_getitem fs ds i =
                (case image_steps fs ds i of Inl err \<Rightarrow> Inl err | Inr im \<Rightarrow> Inr (im, l)))"
proof -
  let ?anns = "annotations (nacti_metadata ds)"
  from built have lt: "LABEL_TYPES label_type = Some (label_map ds)"
    by (auto simp: NACTI_init_def Let_def split: sum.splits option.splits if_splits)
  from lo hi have idx: "py_index ?anns i = Inr (?anns ! nat i)"
    by (simp add: py_index_in_range NACTI_len_def)
  from lo hi have "?anns ! nat i \<in> set ?anns"
    by (simp add: NACTI_len_def)
  with total obtain l where l: "label_map ds (?anns ! nat i) = Some l"
    by auto
  then have r: "l \<in> ran (label_map ds)"
    by (auto simp: ran_def)
  have "NACTI_getitem fs ds i =
          (case image_steps fs ds i of Inl err \<Rightarrow> Inl err | Inr im \<Rightarrow> Inr (im, l))"
    using idx l
    by (simp add: NACTI_getitem_def image_steps_def split: sum.splits option.splits)
  with lt l r show ?thesis by blast
qed

text \<open>
  The example of the specification: annotations with the category ids 1 and 16 and
  the binary map; \<open>item(0)\<close> has label 1 and \<open>item(1)\<close> has label 0.
\<close>

theorem NACTI_getitem_label_witness:
  "NACTI_init ex_logger ex_files ''data'' ''binary'' None
     = ([Opened ''data/nacti_metadata_tmp.json''], Inr ex_binary)
   \<and> set (annotations (nacti_metadata ex_binary)) \<subseteq> dom (label_map ex_binary)
   \<and> (0::int) \<le> 1 \<and> 1 < int (NACTI_len ex_binary)
   \<and> NACTI_getitem ex_files ex_binary 1 = Inr (20, 0)
   \<and> NACTI_getitem ex_files ex_binary 0 = Inr (10, 1)"
proof -
  have tot: "set (annotations (nacti_metadata ex_binary)) \<subseteq> dom (label_map ex_binary)"
    by (simp add: ex_binary_def ex_metadata_def BINARY_1 BINARY_16 dom_def)
  have len: "(1::int) < int (NACTI_len ex_binary)"
    by (simp add: NACTI_len_def ex_binary_def ex_metadata_def)
  have im: "image_steps ex_files ex_binary 1 = Inr 20"
    by (simp add: image_steps_def ex_binary_def ex_metadata_def ex_files_def py_index_def
        os_path_join_def)
  have a: "annotations (nacti_metadata ex_binary) ! nat 1 = 16"
    by (simp add: ex_binary_def ex_metadata_def)
  have "NACTI_getitem ex_files ex_binary 1 = Inr (20, 0)"
    using NACTI_getitem_label [OF ex_init tot _ len] im a
    by (simp add: ex_binary_def BINARY_16)
  moreover have "NACTI_getitem ex_files ex_binary 0 = Inr (10, 1)"
    by (simp add: NACTI_getitem_def ex_binary_def ex_metadata_def ex_files_def py_index_def
        os_path_join_def BINARY_1)
  ultimately show ?thesis using ex_init tot len by simp
qed

lemma LABEL_TYPES_None: "LABEL_TYPES t = None \<longleftrightarrow> t \<noteq> ''binary'' \<and> t \<noteq> ''multi''"
  by (simp add: LABEL_TYPES_def)

text \<open>
  C6. With a selector other than \<open>binary\<close> and \<open>multi\<close>, \<open>NACTI.__init__\<close> never returns
  an adapter: it raises. The only file it opens is the metadata file, so no image is
  read, and no adapter exists on which an item could be accessed. When the metadata
  file loads and the logger offers \<open>error\<close>, the error line is logged and the exception
  is the \<open>KeyError\<close> of the lookup of the selector in \<open>LABEL_TYPES\<close>.
\<close>

theorem NACTI_init_unrecognized:
  assumes "label_type \<noteq> ''binary''" and "label_type \<noteq> ''multi''"
  shows "(\<exists>err. snd (NACTI_init lg fs dir label_type tr) = Inl err)
     \<and> (\<forall>p. Opened p \<in> set (fst (NACTI_init lg fs dir label_type tr))
            \<longrightarrow> p = os_path_join dir ''nacti_metadata_tmp.json'')
     \<and> (\<forall>md. json_load fs (os_path_join dir ''nacti_metadata_tmp.json'') = Inr md
              \<and> ''error'' \<in> set (methods lg)
            \<longrightarrow> NACTI_init lg fs dir label_type tr =
                  ([Opened (os_path_join dir ''nacti_metadata_tmp.json''),
                    Logged ''error''
                      (Msg ''Specify right type for NACTI dataset - binary or multi'')],
                   Inl (KeyError (StrKey label_type))))"
proof -
  from assms have none: "LABEL_TYPES label_type = None"
    by (simp add: LABEL_TYPES_None)
  have a: "\<exists>err. snd (NACTI_init lg fs dir label_type tr) = Inl err"
    using none by (simp add: NACTI_init_def Let_def log_call_def split: sum.splits)
  have b: "\<forall>p. Opened p \<in> set (fst (NACTI_init lg fs dir label_type tr))
            \<longrightarrow> p = os_path_join dir ''nacti_metadata_tmp.json''"
    using none by (auto simp: NACTI_init_def Let_def log_call_def split: sum.splits)
  have c: "\<forall>md. json_load fs (os_path_join dir ''nacti_metadata_tmp.json'') = Inr md
              \<and> ''error'' \<in> set (methods lg)
            \<longrightarrow> NACTI_init lg fs dir label_type tr =
                  ([Opened (os_path_join dir ''nacti_metadata_tmp.json''),
                    Logged ''error''
                      (Msg ''Specify right type for NACTI dataset - binary or multi'')],
                   Inl (KeyError (StrKey label_type)))"
    using none by (simp add: NACTI_init_def Let_def log_call_def)
  from a b c show ?thesis by blast
qed

theorem NACTI_init_unrecognized_witness:
  "''species'' \<noteq> ''binary'' \<and> ''species'' \<noteq> ''multi''
   \<and> NACTI_init ex_logger ex_files ''data'' ''species'' None =
       ([Opened ''data/nacti_metadata_tmp.json'',
         Logged ''error'' (Msg ''Specify right type for NACTI dataset - binary or multi'')],
        Inl (KeyError (StrKey ''species'')))"
proof -
  have h1: "''species'' \<noteq> ''binary''" and h2: "''species'' \<noteq> ''multi''"
    by simp_all
  have p: "os_path_join ''data'' ''nacti_metadata_tmp.json'' = ''data/nacti_metadata_tmp.json''"
    by (simp add: os_path_join_def)
  have j: "json_load ex_files ''data/nacti_metadata_tmp.json'' = Inr ex_metadata"
    by (simp add: ex_files_def)
  have m: "''error'' \<in> set (methods ex_logger)"
    by (simp add: ex_logger_def)
  note t = NACTI_init_unrecognized [OF h1 h2, of ex_logger ex_files "''data''" None,
      unfolded p, THEN conjunct2, THEN conjunct2, rule_format, of ex_metadata]
  from t j m have "NACTI_init ex_logger ex_files ''data'' ''species'' None =
       ([Opened ''data/nacti_metadata_tmp.json'',
         Logged ''error'' (Msg ''Specify right type for NACTI dataset - binary or multi'')],
        Inl (KeyError (StrKey ''species'')))"
    by blast
  with h1 h2 show ?thesis by blast
qed

text \<open>
  C10. With the selector \<open>multi\<close>, construction succeeds as soon as the metadata file
  loads, and the adapter's label map is the empty \<open>MULTI\<close>. No call of \<open>item\<close> on that
  adapter returns; a call whose image steps up to the label lookup succeed, at an
  index whose annotation exists, raises the \<open>KeyError\<close> of the label map at the
  annotation's category id.
\<close>

theorem NACTI_multi_getitem_fails:
  assumes "json_load fs (os_path_join dir ''nacti_metadata_tmp.json'') = Inr md"
  shows "\<exists>ds. NACTI_init lg fs dir ''multi'' tr
               = ([Opened (os_path_join dir ''nacti_metadata_tmp.json'')], Inr ds)
     \<and> label_map ds = Map.empty
     \<and> (\<forall>i r. NACTI_getitem fs ds i \<noteq> Inr r)
     \<and> (\<forall>i file_name img c.
            py_index (images md) i = Inr file_name
          \<and> Image_open fs (os_path_join dir file_name) = Inr img
          \<and> py_index (annotations md) i = Inr c
          \<longrightarrow> NACTI_getitem fs ds i = Inl (KeyError (IntKey c)))"
proof -
  let ?ds = "\<lparr>data_dir = dir, nacti_metadata = md, label_map = MULTI, transform = tr\<rparr>"
  have i: "NACTI_init lg fs dir ''multi'' tr
             = ([Opened (os_path_join dir ''nacti_metadata_tmp.json'')], Inr ?ds)"
    using assms by (simp add: NACTI_init_def Let_def LABEL_TYPES_def)
  have e: "label_map ?ds = Map.empty"
    by (simp add: MULTI_def)
  have n: "\<forall>i r. NACTI_getitem fs ?ds i \<noteq> Inr r"
    by (simp add: NACTI_getitem_def MULTI_def split: sum.splits)
  have k: "\<forall>i file_name img c.
            py_index (images md) i = Inr file_name
          \<and> Image_open fs (os_path_join dir file_name) = Inr img
          \<and> py_index (annotations md) i = Inr c
          \<longrightarrow> NACTI_getitem fs ?ds i = Inl (KeyError (IntKey c))"
    by (simp add: NACTI_getitem_def MULTI_def)
  from i e n k show ?thesis by blast
qed

theorem NACTI_multi_getitem_fails_witness:
  "json_load ex_files (os_path_join ''data'' ''nacti_metadata_tmp.json'') = Inr ex_metadata
   \<and> (\<exists>ds. NACTI_init ex_logger ex_files ''data'' ''multi'' None
               = ([Opened (os_path_join ''data'' ''nacti_metadata_tmp.json'')], Inr ds)
          \<and> NACTI_getitem ex_files ds 0 = Inl (KeyError (IntKey 1))
          \<and> NACTI_getitem ex_files ds 1 = Inl (KeyError (IntKey 16)))"
proof -
  have j: "json_load ex_files (os_path_join ''data'' ''nacti_metadata_tmp.json'') = Inr ex_metadata"
    by (simp add: ex_files_def os_path_join_def)
  have i0: "py_index (images ex_metadata) 0 = Inr ''a.jpg''"
    and a0: "py_index (annotations ex_metadata) 0 = Inr 1"
    and i1: "py_index (images ex_metadata) 1 = Inr ''b.jpg''"
    and a1: "py_index (annotations ex_metadata) 1 = Inr 16"
    by (simp_all add: py_index_def ex_metadata_def)
  have o0: "Image_open ex_files (os_path_join ''data'' ''a.jpg'') = Inr 10"
    and o1: "Image_open ex_files (os_path_join ''data'' ''b.jpg'') = Inr 20"
    by (simp_all add: ex_files_def os_path_join_def)
  from NACTI_multi_getitem_fails [OF j, of ex_logger None]
  obtain ds where ds: "NACTI_init ex_logger ex_files ''data'' ''multi'' None
               = ([Opened (os_path_join ''data'' ''nacti_metadata_tmp.json'')], Inr ds)"
    and k: "\<forall>i file_name img c.
            py_index (images ex_metadata) i = Inr file_name
          \<and> Image_open ex_files (os_path_join ''data'' file_name) = Inr img
          \<and> py_index (annotations ex_metadata) i = Inr c
          \<longrightarrow> NACTI_getitem ex_files ds i = Inl (KeyError (IntKey c))"
    by (elim exE conjE)
  have g0: "NACTI_getitem ex_files ds 0 = Inl (KeyError (IntKey 1))"
    by (rule k [rule_format, of 0 "''a.jpg''" 10 1]) (intro conjI i0 o0 a0)
  have g1: "NACTI_getitem ex_files ds 1 = Inl (KeyError (IntKey 16))"
    by (rule k [rule_format, of 1 "''b.jpg''" 20 16]) (intro conjI i1 o1 a1)
  show ?thesis
    by (intro conjI exI [of _ ds] j ds g0 g1)
qed

section \<open>Properties of the engine\<close>

text \<open>
  C9. On a machine with an accelerator, \<open>BaseEngine.__init__\<close> calls \<open>log.ward\<close>. With a
  logger that offers the methods the rest of the code calls (\<open>info\<close>, \<open>warn\<close>, \<open>error\<close>,
  \<open>infov\<close>), the call raises \<open>AttributeError\<close>: construction fails and nothing is
  logged, whereas the other branch logs its line through \<open>log.warn\<close> and completes.
\<close>

theorem BaseEngine_init_accelerator_fails:
  "BaseEngine_init ex_logger True = ([], Inl (AttributeError ''ward''))
   \<and> BaseEngine_init ex_logger False =
       ([(''warn'', Msg ''GPU is not available. Please check the configuration.'')],
        Inr ''cpu'')"
  by (simp add: BaseEngine_init_def log_call_def ex_logger_def)

lemma val_batches_no_attribute:
  "num_clsses e = None \<Longrightarrow> bs \<noteq> [] \<Longrightarrow> val_batches e bs acc = Inl (AttributeError ''num_clsses'')"
  by (cases bs; cases acc) simp_all

lemma Engine_init_ex:
  "Engine_init ex_logger ex_builders ex_config ''t'' =
     ([(''warn'', Msg ''GPU is not available. Please check the configuration.'')],
      Inr ex_engine)"
  by (simp add: Engine_init_def BaseEngine_init_def log_call_def ex_logger_def
      ex_builders_def ex_config_def ex_engine_def)

text \<open>
  C4. The constructor assigns the class count of the model builder to \<open>num_classes\<close>
  and leaves \<open>num_clsses\<close>, the name that \<open>_val\<close> and \<open>_eval\<close> read, unassigned. On
  every engine the constructor returns, whatever the class count (the single-logit
  case included), a validation pass over at least one batch and an evaluation that
  draws a batch raise \<open>AttributeError\<close> on that name.
\<close>

theorem Engine_init_num_clsses_unassigned:
  assumes "Engine_init lg bd cfg tg = (lines, Inr e)"
  shows "misc_num_classes (built_misc bd) = Some (num_classes e)
     \<and> num_clsses e = None
     \<and> (\<forall>bs. bs \<noteq> [] \<longrightarrow> Engine_val e bs = Inl (AttributeError ''num_clsses''))
     \<and> (\<forall>save_roc ec b rest.
           Engine_eval save_roc e ec (b # rest) = (rest, Inl (AttributeError ''num_clsses'')))"
proof -
  from assms have n: "num_clsses e = None"
    and c: "misc_num_classes (built_misc bd) = Some (num_classes e)"
    by (auto simp: Engine_init_def split: prod.splits sum.splits option.splits if_splits)
  have v: "\<forall>bs. bs \<noteq> [] \<longrightarrow> Engine_val e bs = Inl (AttributeError ''num_clsses'')"
    using n by (simp add: Engine_val_def val_batches_no_attribute)
  have ev: "\<forall>save_roc ec b rest.
           Engine_eval save_roc e ec (b # rest) = (rest, Inl (AttributeError ''num_clsses''))"
    using n by (simp add: Engine_eval_def)
  from c n v ev show ?thesis by blast
qed

theorem Engine_init_num_clsses_unassigned_witness:
  "Engine_init ex_logger ex_builders ex_config ''t'' =
     ([(''warn'', Msg ''GPU is not available. Please check the configuration.'')],
      Inr ex_engine)
   \<and> num_classes ex_engine = 1
   \<and> Engine_val ex_engine [ex_batch 1 14] = Inl (AttributeError ''num_clsses'')
   \<and> Engine_eval None ex_engine \<lparr>cfg_use_roc = None\<rparr> [ex_batch 1 14]
       = ([], Inl (AttributeError ''num_clsses''))"
proof -
  note t = Engine_init_num_clsses_unassigned [OF Engine_init_ex]
  have v: "Engine_val ex_engine [ex_batch 1 14] = Inl (AttributeError ''num_clsses'')"
    using t by blast
  have ev: "Engine_eval None ex_engine \<lparr>cfg_use_roc = None\<rparr> [ex_batch 1 14]
       = ([], Inl (AttributeError ''num_clsses''))"
    using t by blast
  have n: "num_classes ex_engine = 1"
    by (simp add: ex_engine_def)
  from Engine_init_ex n v ev show ?thesis by blast
qed

lemma train_batches_result:
  "train_batches e nb i bs tot lines = (lines', Inr r)
     \<Longrightarrow> r = tot + (\<Sum>b\<leftarrow>bs. train_batch_loss e b * real (batch_size b))"
proof (induction bs arbitrary: i tot lines)
  case Nil
  then show ?case by simp
next
  case (Cons b bs)
  from Cons.prems obtain l1 where
    "train_batches e nb (Suc i) bs (tot + train_batch_loss e b * real (batch_size b)) l1
       = (lines', Inr r)"
    by (auto simp: Let_def split: sum.splits)
  from Cons.IH [OF this] show ?case
    by (simp add: add.assoc)
qed

lemma train_batches_returns:
  "''info'' \<in> set (methods (engine_log e))
     \<Longrightarrow> \<exists>lines'. train_batches e nb i bs tot lines
           = (lines', Inr (tot + (\<Sum>b\<leftarrow>bs. train_batch_loss e b * real (batch_size b))))"
proof (induction bs arbitrary: i tot lines)
  case Nil
  then show ?case by simp
next
  case (Cons b bs)
  from Cons.IH [OF Cons.prems, of "Suc i" "tot + train_batch_loss e b * real (batch_size b)"
      "lines @ [(''info'', TrainBatch i nb (train_batch_loss e b))]"]
  show ?case
    using Cons.prems by (simp add: Let_def log_call_def add.assoc)
qed

lemma val_batches_result:
  "num_clsses e = Some k
     \<Longrightarrow> val_batches e bs (s0, c0) =
         Inr (s0 + (\<Sum>b\<leftarrow>bs. loss b * real (batch_size b)),
              c0 + (\<Sum>b\<leftarrow>bs. if 1 < k then corrects_max b else corrects_gt b))"
  by (induction bs arbitrary: s0 c0) (simp_all add: add.assoc)

lemma Engine_val_returns:
  assumes "num_clsses e = Some k" and "bs \<noteq> []" and "0 < val_len e"
  shows "Engine_val e bs =
           Inr ((\<Sum>b\<leftarrow>bs. loss b * real (batch_size b)) / real (val_len e),
                real (\<Sum>b\<leftarrow>bs. if 1 < k then corrects_max b else corrects_gt b)
                  / real (val_len e))"
  using assms by (simp add: Engine_val_def val_batches_result)

lemma Engine_val_result:
  assumes "Engine_val e bs = Inr (vl, va)"
  shows "vl = (\<Sum>b\<leftarrow>bs. loss b * real (batch_size b)) / real (val_len e)"
proof (cases "num_clsses e")
  case None
  with assms show ?thesis
    by (cases bs) (simp_all add: Engine_val_def split: if_splits)
next
  case (Some k)
  with assms show ?thesis
    by (auto simp: Engine_val_def val_batches_result split: if_splits)
qed

text \<open>
  C7. Whenever a training pass or a validation pass reports a loss, that loss is the
  sum over the batches of batch loss times batch size, divided by the number of
  samples of the split's dataset (the batch loss of a training pass being the
  criterion's value, plus 0.4 times the auxiliary one for an architecture with an
  auxiliary output). A training pass reports its loss when the dataset is not empty
  and the logger offers \<open>info\<close>; a validation pass does when, besides, it has a batch
  and the attribute \<open>num_clsses\<close> can be read.
\<close>

theorem weighted_average_loss:
  "(\<forall>lines lines' r. Engine_train_one_epoch e bs lines = (lines', Inr r)
        \<longrightarrow> r = (\<Sum>b\<leftarrow>bs. train_batch_loss e b * real (batch_size b)) / real (train_len e))
   \<and> (\<forall>vl va. Engine_val e bs = Inr (vl, va)
        \<longrightarrow> vl = (\<Sum>b\<leftarrow>bs. loss b * real (batch_size b)) / real (val_len e))
   \<and> (''info'' \<in> set (methods (engine_log e)) \<and> 0 < train_len e
        \<longrightarrow> (\<forall>lines. \<exists>lines'. Engine_train_one_epoch e bs lines =
              (lines', Inr ((\<Sum>b\<leftarrow>bs. train_batch_loss e b * real (batch_size b))
                              / real (train_len e)))))
   \<and> (num_clsses e \<noteq> None \<and> bs \<noteq> [] \<and> 0 < val_len e
        \<longrightarrow> (\<exists>va. Engine_val e bs =
              Inr ((\<Sum>b\<leftarrow>bs. loss b * real (batch_size b)) / real (val_len e), va)))"
proof (intro conjI allI impI)
  fix lines lines' r
  assume "Engine_train_one_epoch e bs lines = (lines', Inr r)"
  then show "r = (\<Sum>b\<leftarrow>bs. train_batch_loss e b * real (batch_size b)) / real (train_len e)"
    by (auto simp: Engine_train_one_epoch_def split: prod.splits sum.splits if_splits
        dest!: train_batches_result)
next
  fix vl va
  assume "Engine_val e bs = Inr (vl, va)"
  then show "vl = (\<Sum>b\<leftarrow>bs. loss b * real (batch_size b)) / real (val_len e)"
    by (rule Engine_val_result)
next
  fix lines
  assume a: "''info'' \<in> set (methods (engine_log e)) \<and> 0 < train_len e"
  then obtain lines' where
    "train_batches e (length bs) 0 bs 0 lines
       = (lines', Inr (0 + (\<Sum>b\<leftarrow>bs. train_batch_loss e b * real (batch_size b))))"
    using train_batches_returns [of e "length bs" 0 bs 0 lines] by blast
  with a show "\<exists>lines'. Engine_train_one_epoch e bs lines =
      (lines', Inr ((\<Sum>b\<leftarrow>bs. train_batch_loss e b * real (batch_size b)) / real (train_len e)))"
    by (simp add: Engine_train_one_epoch_def)
next
  assume a: "num_clsses e \<noteq> None \<and> bs \<noteq> [] \<and> 0 < val_len e"
  then obtain k where "num_clsses e = Some k" by blast
  with a show "\<exists>va. Engine_val e bs =
      Inr ((\<Sum>b\<leftarrow>bs. loss b * real (batch_size b)) / real (val_len e), va)"
    by (simp add: Engine_val_returns)
qed

theorem weighted_average_loss_witness:
  "''info'' \<in> set (methods (engine_log ex_engine_patched)) \<and> 0 < train_len ex_engine_patched
   \<and> num_clsses ex_engine_patched \<noteq> None \<and> ex_batches \<noteq> [] \<and> 0 < val_len ex_engine_patched
   \<and> (\<exists>lines'. Engine_train_one_epoch ex_engine_patched ex_batches [] = (lines', Inr (2 / 5)))
   \<and> (\<exists>va. Engine_val ex_engine_patched ex_batches = Inr (2 / 5, va))"
proof -
  have h1: "''info'' \<in> set (methods (engine_log ex_engine_patched)) \<and> 0 < train_len ex_engine_patched"
    by (simp add: ex_engine_patched_def ex_engine_def ex_logger_def)
  have h2: "num_clsses ex_engine_patched \<noteq> None \<and> ex_batches \<noteq> [] \<and> 0 < val_len ex_engine_patched"
    by (simp add: ex_engine_patched_def ex_engine_def ex_batches_def)
  have s1: "(\<Sum>b\<leftarrow>ex_batches. train_batch_loss ex_engine_patched b * real (batch_size b))
              / real (train_len ex_engine_patched) = 2 / 5"
    by (simp add: ex_batches_def train_batch_loss_def ex_engine_patched_def ex_engine_def)
  have s2: "(\<Sum>b\<leftarrow>ex_batches. loss b * real (batch_size b))
              / real (val_len ex_engine_patched) = 2 / 5"
    by (simp add: ex_batches_def ex_engine_patched_def ex_engine_def)
  note t = weighted_average_loss [of ex_engine_patched ex_batches]
  have a: "\<exists>lines'. Engine_train_one_epoch ex_engine_patched ex_batches [] = (lines', Inr (2 / 5))"
    using t h1 unfolding s1 by blast
  have b: "\<exists>va. Engine_val ex_engine_patched ex_batches = Inr (2 / 5, va)"
    using t h2 unfolding s2 by blast
  from h1 h2 a b show ?thesis by blast
qed

text \<open>
  C3 (as amended). A call of \<open>_eval\<close> draws exactly one batch: the iterator it leaves
  behind is the one it found less its first batch. When the attribute \<open>num_clsses\<close>
  can be read, the dataset is not empty and the ROC export, if it runs, returns, the
  pair returned is the loss sum and the number of correct predictions of that single
  batch, each divided by the size of the whole evaluation dataset.
\<close>

theorem Engine_eval_single_batch:
  assumes "num_clsses e = Some k" and "0 < eval_len e"
    and "1 < k \<or> cfg_use_roc ec \<noteq> Some True \<or> save_roc = None"
  shows "Engine_eval save_roc e ec (b # rest) =
           (rest, Inr (loss b * real (batch_size b) / real (eval_len e),
                       real (if 1 < k then corrects_max b else corrects_gt b)
                         / real (eval_len e)))"
  using assms by (auto simp: Engine_eval_def Let_def split: option.splits)

theorem Engine_eval_single_batch_witness:
  "num_clsses (ex_engine_patched\<lparr>eval_len := 40\<rparr>) = Some 1
   \<and> 0 < eval_len (ex_engine_patched\<lparr>eval_len := 40\<rparr>)
   \<and> cfg_use_roc \<lparr>cfg_use_roc = None\<rparr> \<noteq> Some True
   \<and> Engine_eval None (ex_engine_patched\<lparr>eval_len := 40\<rparr>) \<lparr>cfg_use_roc = None\<rparr>
        [ex_batch 1 14, ex_batch 2 3]
       = ([ex_batch 2 3], Inr (1 / 2, 7 / 20))"
proof -
  have h1: "num_clsses (ex_engine_patched\<lparr>eval_len := 40\<rparr>) = Some 1"
    and h2: "0 < eval_len (ex_engine_patched\<lparr>eval_len := 40\<rparr>)"
    by (simp_all add: ex_engine_patched_def)
  have h3: "cfg_use_roc \<lparr>cfg_use_roc = None\<rparr> \<noteq> Some True"
    by simp
  from h3 have h3': "1 < (1::int) \<or> cfg_use_roc \<lparr>cfg_use_roc = None\<rparr> \<noteq> Some True
      \<or> (None :: error option) = None"
    by simp
  have "Engine_eval None (ex_engine_patched\<lparr>eval_len := 40\<rparr>) \<lparr>cfg_use_roc = None\<rparr>
        [ex_batch 1 14, ex_batch 2 3] = ([ex_batch 2 3], Inr (1 / 2, 7 / 20))"
    using Engine_eval_single_batch [OF h1 h2 h3', of "ex_batch 1 14" "[ex_batch 2 3]"]
    by (simp add: ex_batch_def)
  with h1 h2 h3 show ?thesis by blast
qed

text \<open>
  The claim as stated fails: one and the same batch (20 samples, loss 1, 14 correct)
  gives \<open>(1, 7/10)\<close>, its own averages, on a dataset of 20 samples and \<open>(1/2, 7/20)\<close> on
  a dataset of 40; and \<open>eval()\<close> returns nothing of the pair.
\<close>

theorem Engine_eval_batch_average_counterexample:
  "Engine_eval None ex_engine_patched \<lparr>cfg_use_roc = None\<rparr> [ex_batch 1 14]
     = ([], Inr (1, 7 / 10))
   \<and> Engine_eval None (ex_engine_patched\<lparr>eval_len := 40\<rparr>) \<lparr>cfg_use_roc = None\<rparr> [ex_batch 1 14]
     = ([], Inr (1 / 2, 7 / 20))
   \<and> BaseEngine_eval None (ex_engine_patched\<lparr>eval_len := 40\<rparr>) [ex_batch 1 14] = ([], Inr ())"
  by (simp add: Engine_eval_def BaseEngine_eval_def ex_engine_patched_def ex_engine_def
      ex_batch_def ex_config_def)

section \<open>Properties of the epoch loop\<close>

subsection \<open>Improvements of a sequence of accuracies\<close>

lemma improvements_lower: "x \<in> set (improvements best ep as) \<Longrightarrow> ep \<le> x"
proof (induction as arbitrary: best ep)
  case Nil
  then show ?case by simp
next
  case (Cons a as)
  then show ?case
    by (fastforce split: if_splits)
qed

lemma improvements_strictly_sorted: "sorted_wrt (<) (improvements best ep as)"
proof (induction as arbitrary: best ep)
  case Nil
  then show ?case by simp
next
  case (Cons a as)
  have "\<forall>x \<in> set (improvements a (ep + 1) as). ep < x"
    using improvements_lower [of _ a "ep + 1" as] by fastforce
  with Cons.IH show ?case by simp
qed

lemma all_less_Suc: "(\<forall>j<Suc i. Q j) \<longleftrightarrow> Q 0 \<and> (\<forall>j<i. Q (Suc j))"
  by (metis less_Suc_eq_0_disj not_less_zero zero_less_Suc Suc_less_eq)

lemma ex_nat_cases: "(\<exists>i::nat. P i) \<longleftrightarrow> P 0 \<or> (\<exists>i. P (Suc i))"
  by (metis not0_implies_Suc)

lemma improvements_mem:
  "x \<in> set (improvements best ep as) \<longleftrightarrow>
     (\<exists>i. i < length as \<and> x = ep + int i \<and> best < as ! i \<and> (\<forall>j<i. as ! j < as ! i))"
proof (induction as arbitrary: best ep)
  case Nil
  then show ?case by simp
next
  case (Cons a as)
  let ?R = "\<lambda>b i. i < length as \<and> x = ep + 1 + int i \<and> b < as ! i \<and> (\<forall>j<i. as ! j < as ! i)"
  let ?L = "\<lambda>i. i < length (a # as) \<and> x = ep + int i \<and> best < (a # as) ! i
               \<and> (\<forall>j<i. (a # as) ! j < (a # as) ! i)"
  have suc: "?L (Suc i) \<longleftrightarrow> ?R (max best a) i" for i
  proof -
    have "int (Suc i) = 1 + int i" by simp
    then have "x = ep + int (Suc i) \<longleftrightarrow> x = ep + 1 + int i" by arith
    then show ?thesis
      by (simp add: all_less_Suc max_less_iff_conj conj_ac)
  qed
  have zero: "?L 0 \<longleftrightarrow> x = ep \<and> best < a"
    by auto
  have ex: "(\<exists>i. ?L i) \<longleftrightarrow> ?L 0 \<or> (\<exists>i. ?L (Suc i))"
    by (rule ex_nat_cases)
  have ih: "x \<in> set (improvements b (ep + 1) as) \<longleftrightarrow> (\<exists>i. ?R b i)" for b
    by (rule Cons.IH)
  show ?case
  proof (cases "best < a")
    case True
    then have m: "max best a = a" by simp
    have "x \<in> set (improvements best ep (a # as)) \<longleftrightarrow> x = ep \<or> (\<exists>i. ?R a i)"
      using True ih [of a] by simp
    also have "\<dots> \<longleftrightarrow> ?L 0 \<or> (\<exists>i. ?L (Suc i))"
      unfolding suc zero m using True by simp
    finally show ?thesis unfolding ex .
  next
    case False
    then have m: "max best a = best" by simp
    have "x \<in> set (improvements best ep (a # as)) \<longleftrightarrow> (\<exists>i. ?R best i)"
      using False ih [of best] by simp
    also have "\<dots> \<longleftrightarrow> ?L 0 \<or> (\<exists>i. ?L (Suc i))"
      unfolding suc zero m using False by simp
    finally show ?thesis unfolding ex .
  qed
qed

subsection \<open>One epoch\<close>

lemma epoch_body_cases:
  assumes "epoch_body w e sd ep st = (st', err)"
  shows "(err \<noteq> None \<and> val_accuracies st' = val_accuracies st \<and> saved st' = saved st
            \<and> best_acc st' = best_acc st)
       \<or> (\<exists>vl a. Engine_val e (val_run w ep) = Inr (vl, a)
            \<and> val_accuracies st' = val_accuracies st @ [a]
            \<and> best_acc st' = max (best_acc st) a
            \<and> saved st' = saved st @ (if best_acc st < a then [Engine_save_model w e sd ep] else []))"
proof -
  obtain l1 r1 where t: "Engine_train_one_epoch e (train_run w ep) (logged st) = (l1, r1)"
    by (cases "Engine_train_one_epoch e (train_run w ep) (logged st)")
  show ?thesis
  proof (cases r1)
    case (Inl er)
    with assms t show ?thesis
      by (auto simp: epoch_body_def)
  next
    case train: (Inr train_loss)
    show ?thesis
    proof (cases "log_call (engine_log e) ''info'' (EpochTrain ep train_loss) l1")
      case (Inl er)
      with assms t train show ?thesis
        by (auto simp: epoch_body_def)
    next
      case l2: (Inr l2)
      show ?thesis
      proof (cases "Engine_val e (val_run w ep)")
        case (Inl er)
        with assms t train l2 show ?thesis
          by (auto simp: epoch_body_def)
      next
        case (Inr p)
        then obtain vl a where v: "Engine_val e (val_run w ep) = Inr (vl, a)"
          by (cases p) simp
        from assms t train l2 v have
          "val_accuracies st' = val_accuracies st @ [a]
           \<and> best_acc st' = max (best_acc st) a
           \<and> saved st' = saved st
                 @ (if best_acc st < a then [Engine_save_model w e sd ep] else [])"
          by (auto simp: epoch_body_def Let_def max_def split: sum.splits)
        with v show ?thesis by blast
      qed
    qed
  qed
qed

lemma epochs_completed_append:
  "epochs_completed (xs @ ys) = epochs_completed xs @ epochs_completed ys"
  by (induction xs rule: epochs_completed.induct) simp_all

lemma train_batches_completed:
  "train_batches e nb i bs tot lines = (lines', r)
     \<Longrightarrow> epochs_completed lines' = epochs_completed lines"
proof (induction bs arbitrary: i tot lines)
  case Nil
  then show ?case by simp
next
  case (Cons b bs)
  show ?case
  proof (cases "''info'' \<in> set (methods (engine_log e))")
    case True
    with Cons.prems have
      "train_batches e nb (Suc i) bs (tot + train_batch_loss e b * real (batch_size b))
         (lines @ [(''info'', TrainBatch i nb (train_batch_loss e b))]) = (lines', r)"
      by (simp add: Let_def log_call_def)
    from Cons.IH [OF this] show ?thesis
      by (simp add: epochs_completed_append)
  next
    case False
    with Cons.prems show ?thesis
      by (simp add: Let_def log_call_def)
  qed
qed

lemma Engine_train_one_epoch_completed:
  "Engine_train_one_epoch e bs lines = (lines', r)
     \<Longrightarrow> epochs_completed lines' = epochs_completed lines"
  by (auto simp: Engine_train_one_epoch_def split: prod.splits sum.splits if_splits
      dest: train_batches_completed)

lemma epoch_body_completed:
  assumes "epoch_body w e sd ep st = (st', None)"
  shows "epochs_completed (logged st') = epochs_completed (logged st) @ [ep]"
  using assms
  by (auto simp: epoch_body_def Let_def log_call_def epochs_completed_append
      split: prod.splits sum.splits if_splits dest: Engine_train_one_epoch_completed)

lemma Engine_train_one_epoch_returns:
  assumes "''info'' \<in> set (methods (engine_log e))" and "0 < train_len e"
  shows "\<exists>lines' r. Engine_train_one_epoch e bs lines = (lines', Inr r)"
proof -
  from train_batches_returns [OF assms(1), of "length bs" 0 bs 0 lines]
  obtain lines' r where "train_batches e (length bs) 0 bs 0 lines = (lines', Inr r)"
    by blast
  with assms(2) show ?thesis
    by (simp add: Engine_train_one_epoch_def)
qed

lemma epoch_body_returns:
  assumes "''info'' \<in> set (methods (engine_log e))"
    and "''infov'' \<in> set (methods (engine_log e))"
    and "0 < train_len e" and "0 < val_len e"
    and "num_clsses e = Some k" and "val_run w ep \<noteq> []"
  shows "snd (epoch_body w e sd ep st) = None"
proof -
  from Engine_train_one_epoch_returns [OF assms(1,3)]
  obtain l1 r where t: "Engine_train_one_epoch e (train_run w ep) (logged st) = (l1, Inr r)"
    by blast
  from Engine_val_returns [OF assms(5,6,4)]
  obtain vl va where v: "Engine_val e (val_run w ep) = Inr (vl, va)"
    by blast
  show ?thesis
    using t v assms(1,2)
    by (simp add: epoch_body_def Let_def log_call_def)
qed

subsection \<open>The loop\<close>

lemma run_epochs_trace:
  "run_epochs w e sd [a..b] st = (st', err) \<Longrightarrow>
     \<exists>accs. val_accuracies st' = val_accuracies st @ accs
       \<and> saved st' = saved st @ map (Engine_save_model w e sd) (improvements (best_acc st) a accs)
       \<and> (\<forall>i<length accs. \<exists>vl. Engine_val e (val_run w (a + int i)) = Inr (vl, accs ! i))"
proof (induction "[a..b]" arbitrary: a st)
  case Nil
  then show ?case by simp
next
  case (Cons x xs)
  from Cons.hyps(2) have ab: "a \<le> b"
    by (metis list.distinct(1) upto_Nil not_le)
  with Cons.hyps(2) have x: "x = a" and xs: "xs = [a + 1..b]"
    by (simp_all add: upto_rec1)
  obtain st1 err1 where body: "epoch_body w e sd a st = (st1, err1)"
    by (cases "epoch_body w e sd a st")
  from Cons.prems body have run:
    "(case err1 of Some er \<Rightarrow> (st1, Some er) | None \<Rightarrow> run_epochs w e sd [a + 1..b] st1)
       = (st', err)"
    by (simp add: upto_rec1 [OF ab] split: option.splits)
  from epoch_body_cases [OF body] show ?case
  proof (elim disjE conjE exE)
    assume "err1 \<noteq> None" and same: "val_accuracies st1 = val_accuracies st"
      "saved st1 = saved st" "best_acc st1 = best_acc st"
    with run have "st' = st1" by auto
    with same show ?thesis
      by (intro exI [of _ "[]"]) simp
  next
    fix vl acc
    assume v: "Engine_val e (val_run w a) = Inr (vl, acc)"
      and va: "val_accuracies st1 = val_accuracies st @ [acc]"
      and be: "best_acc st1 = max (best_acc st) acc"
      and sa: "saved st1 = saved st
                 @ (if best_acc st < acc then [Engine_save_model w e sd a] else [])"
    show ?thesis
    proof (cases err1)
      case (Some er)
      with run have "st' = st1" by simp
      with v va sa show ?thesis
        by (intro exI [of _ "[acc]"]) simp
    next
      case None
      with run have "run_epochs w e sd [a + 1..b] st1 = (st', err)" by simp
      from Cons.hyps(1) [OF xs this] obtain accs where
        va': "val_accuracies st' = val_accuracies st1 @ accs"
        and sa': "saved st' = saved st1
                    @ map (Engine_save_model w e sd) (improvements (best_acc st1) (a + 1) accs)"
        and vs: "\<forall>i<length accs. \<exists>vl. Engine_val e (val_run w (a + 1 + int i)) = Inr (vl, accs ! i)"
        by blast
      have nth: "\<forall>i<length (acc # accs).
                   \<exists>vl. Engine_val e (val_run w (a + int i)) = Inr (vl, (acc # accs) ! i)"
      proof (intro allI impI)
        fix i assume "i < length (acc # accs)"
        then show "\<exists>vl. Engine_val e (val_run w (a + int i)) = Inr (vl, (acc # accs) ! i)"
        proof (cases i)
          case 0
          with v show ?thesis by simp
        next
          case (Suc j)
          with \<open>i < length (acc # accs)\<close> have "j < length accs" by simp
          with vs obtain vl' where
            "Engine_val e (val_run w (a + 1 + int j)) = Inr (vl', accs ! j)" by blast
          moreover have "a + 1 + int j = a + int i" using Suc by simp
          ultimately show ?thesis using Suc by simp
        qed
      qed
      have "saved st' = saved st
              @ map (Engine_save_model w e sd) (improvements (best_acc st) a (acc # accs))"
        using sa sa' be by (simp add: max_def)
      with va va' nth show ?thesis
        by (intro exI [of _ "acc # accs"]) simp
    qed
  qed
qed

lemma run_epochs_completed:
  "run_epochs w e sd eps st = (st', None)
     \<Longrightarrow> epochs_completed (logged st') = epochs_completed (logged st) @ eps"
proof (induction eps arbitrary: st)
  case Nil
  then show ?case by simp
next
  case (Cons ep eps)
  obtain st1 err1 where body: "epoch_body w e sd ep st = (st1, err1)"
    by (cases "epoch_body w e sd ep st")
  with Cons.prems have n: "err1 = None" and r: "run_epochs w e sd eps st1 = (st', None)"
    by (auto split: option.splits)
  from epoch_body_completed [OF body [unfolded n]] Cons.IH [OF r]
  show ?case by simp
qed

lemma run_epochs_returns:
  assumes "''info'' \<in> set (methods (engine_log e))"
    and "''infov'' \<in> set (methods (engine_log e))"
    and "0 < train_len e" and "0 < val_len e"
    and "num_clsses e = Some k" and "\<forall>ep. val_run w ep \<noteq> []"
  shows "snd (run_epochs w e sd eps st) = None"
proof (induction eps arbitrary: st)
  case Nil
  then show ?case by simp
next
  case (Cons ep eps)
  from assms(6) have "val_run w ep \<noteq> []" by simp
  from epoch_body_returns [OF assms(1-5) this, of sd st]
  obtain st1 where "epoch_body w e sd ep st = (st1, None)"
    by (cases "epoch_body w e sd ep st") simp
  with Cons.IH [of st1] show ?case by simp
qed

subsection \<open>A call of \<open>_train\<close>\<close>

lemma saved_epochs_map:
  "map ((\<lambda>(path, c). epoch c) \<circ> Engine_save_model w e sd) eps = eps"
  by (induction eps) (simp_all add: Engine_save_model_def)

lemma Engine_train_trace:
  assumes "Engine_train w e tc = (st, err)"
  shows "saved_epochs st = improvements 0 (start_epoch e) (val_accuracies st)
       \<and> (\<forall>i<length (val_accuracies st).
            \<exists>vl. Engine_val e (val_run w (start_epoch e + int i)) = Inr (vl, val_accuracies st ! i))"
proof (cases "''info'' \<in> set (methods (engine_log e))")
  case False
  with assms show ?thesis
    by (auto simp: Engine_train_def Let_def log_call_def saved_epochs_def)
next
  case True
  let ?sd = "case cfg_save_dir tc of None \<Rightarrow> ''checkpoints'' | Some d \<Rightarrow> d"
  let ?st0 = "\<lparr>best_acc = 0, val_accuracies = [], saved = [],
               logged = [(''info'', TrainingStarts (num_epochs e tc) (start_epoch e))]\<rparr>"
  from True assms have
    "run_epochs w e ?sd [start_epoch e..num_epochs e tc - 1] ?st0 = (st, err)"
    by (simp add: Engine_train_def Let_def log_call_def py_range_def)
  from run_epochs_trace [OF this] obtain accs where
    "val_accuracies st = accs"
    "saved st = map (Engine_save_model w e ?sd) (improvements 0 (start_epoch e) accs)"
    "\<forall>i<length accs. \<exists>vl. Engine_val e (val_run w (start_epoch e + int i)) = Inr (vl, accs ! i)"
    by auto
  then show ?thesis
    by (simp add: saved_epochs_def saved_epochs_map)
qed

lemma Engine_train_completed:
  assumes "Engine_train w e tc = (st, None)"
  shows "epochs_completed (logged st) = py_range (start_epoch e) (num_epochs e tc)"
proof -
  let ?sd = "case cfg_save_dir tc of None \<Rightarrow> ''checkpoints'' | Some d \<Rightarrow> d"
  let ?st0 = "\<lparr>best_acc = 0, val_accuracies = [], saved = [],
               logged = [(''info'', TrainingStarts (num_epochs e tc) (start_epoch e))]\<rparr>"
  from assms have info: "''info'' \<in> set (methods (engine_log e))"
    by (auto simp: Engine_train_def Let_def log_call_def split: if_splits)
  with assms have
    "run_epochs w e ?sd (py_range (start_epoch e) (num_epochs e tc)) ?st0 = (st, None)"
    by (simp add: Engine_train_def Let_def log_call_def)
  from run_epochs_completed [OF this] show ?thesis by simp
qed

lemma Engine_train_returns:
  assumes "''info'' \<in> set (methods (engine_log e))"
    and "''infov'' \<in> set (methods (engine_log e))"
    and "0 < train_len e" and "0 < val_len e"
    and "num_clsses e = Some k" and "\<forall>ep. val_run w ep \<noteq> []"
  shows "\<exists>st. Engine_train w e tc = (st, None)"
proof -
  have "snd (Engine_train w e tc) = None"
    using assms(1) run_epochs_returns [OF assms]
    by (simp add: Engine_train_def Let_def log_call_def)
  then show ?thesis
    by (cases "Engine_train w e tc") simp
qed

lemma upto_0_2: "[0..2] = [0, 1, 2]"
  by (simp add: upto_rec1)

lemma ex_run:
  "val_accuracies (fst (Engine_train ex_world ex_engine_patched (ex_train_config 3)))
     = [7 / 10, 13 / 20, 9 / 10]"
  by (simp add: Engine_train_def Let_def log_call_def py_range_def start_epoch_def
      num_epochs_def epoch_body_def Engine_train_one_epoch_def Engine_val_def
      train_batch_loss_def Engine_save_model_def ex_world_def ex_engine_patched_def
      ex_engine_def ex_logger_def ex_train_config_def ex_batch_def upto_0_2)

lemma ex_run_saved:
  "saved_epochs (fst (Engine_train ex_world ex_engine_patched (ex_train_config 3))) = [0, 2]"
  by (simp add: Engine_train_def Let_def log_call_def py_range_def start_epoch_def
      num_epochs_def epoch_body_def Engine_train_one_epoch_def Engine_val_def
      train_batch_loss_def Engine_save_model_def ex_world_def ex_engine_patched_def
      ex_engine_def ex_logger_def ex_train_config_def ex_batch_def saved_epochs_def
      upto_0_2)

text \<open>
  C8. Within a call of \<open>_train\<close> (and of \<open>train\<close>, which calls it), the epoch numbers of
  the checkpoints written are non-decreasing in the order of the writes, whether the
  call returns or raises.
\<close>

theorem saved_epochs_sorted:
  "sorted (saved_epochs (fst (Engine_train w e tc)))
   \<and> sorted (saved_epochs (fst (BaseEngine_train w e)))"
proof -
  have a: "sorted (saved_epochs (fst (Engine_train w e tc')))" for tc'
  proof -
    have "Engine_train w e tc' = (fst (Engine_train w e tc'), snd (Engine_train w e tc'))"
      by simp
    from Engine_train_trace [OF this] show ?thesis
      by (simp add: improvements_strictly_sorted strict_sorted_imp_sorted)
  qed
  have "sorted (saved_epochs (fst (BaseEngine_train w e)))"
    using a by (simp add: BaseEngine_train_def saved_epochs_def split: option.splits)
  with a show ?thesis by blast
qed

text \<open>
  C2 (as amended). Let epoch \<open>k\<close> be the \<open>i\<close>-th epoch of a call of \<open>_train\<close> whose
  validation pass returned. A checkpoint is written for epoch \<open>k\<close> if and only if its
  validation accuracy is strictly greater than \<open>0\<close>, the initial value of \<open>best_acc\<close>,
  and strictly greater than the validation accuracy of every earlier epoch of the
  call. So a tie never triggers a save, and the first epoch triggers one exactly when
  its accuracy is positive.
\<close>

theorem checkpoint_iff_improves:
  assumes "Engine_train w e tc = (st, err)" and "i < length (val_accuracies st)"
  shows "(\<exists>vl. Engine_val e (val_run w (start_epoch e + int i))
                 = Inr (vl, val_accuracies st ! i))
     \<and> (start_epoch e + int i \<in> set (saved_epochs st) \<longleftrightarrow>
          0 < val_accuracies st ! i
          \<and> (\<forall>j<i. val_accuracies st ! j < val_accuracies st ! i))"
proof -
  from Engine_train_trace [OF assms(1)] have
    s: "saved_epochs st = improvements 0 (start_epoch e) (val_accuracies st)"
    and v: "\<forall>i<length (val_accuracies st).
              \<exists>vl. Engine_val e (val_run w (start_epoch e + int i))
                     = Inr (vl, val_accuracies st ! i)"
    by blast+
  have "start_epoch e + int i \<in> set (saved_epochs st) \<longleftrightarrow>
          0 < val_accuracies st ! i
          \<and> (\<forall>j<i. val_accuracies st ! j < val_accuracies st ! i)"
    unfolding s improvements_mem using assms(2) by auto
  with v assms(2) show ?thesis by blast
qed

text \<open>
  The example of the specification: the validation accuracies 0.7, 0.65 and 0.9
  in the epochs 0, 1 and 2; checkpoints are written for the epochs 0 and 2 only.
\<close>

theorem checkpoint_iff_improves_witness:
  "2 < length (val_accuracies (fst (Engine_train ex_world ex_engine_patched (ex_train_config 3))))
   \<and> start_epoch ex_engine_patched + int 2
       \<in> set (saved_epochs (fst (Engine_train ex_world ex_engine_patched (ex_train_config 3))))
   \<and> start_epoch ex_engine_patched + int 1
       \<notin> set (saved_epochs (fst (Engine_train ex_world ex_engine_patched (ex_train_config 3))))
   \<and> saved_epochs (fst (Engine_train ex_world ex_engine_patched (ex_train_config 3))) = [0, 2]"
proof -
  let ?R = "Engine_train ex_world ex_engine_patched (ex_train_config 3)"
  have r: "?R = (fst ?R, snd ?R)" by simp
  have l2: "2 < length (val_accuracies (fst ?R))" and l1: "1 < length (val_accuracies (fst ?R))"
    by (simp_all add: ex_run)
  have two: "start_epoch ex_engine_patched + int 2 \<in> set (saved_epochs (fst ?R))"
    using checkpoint_iff_improves [OF r l2]
    by (simp add: ex_run all_less_Suc numeral_2_eq_2)
  have one: "start_epoch ex_engine_patched + int 1 \<notin> set (saved_epochs (fst ?R))"
    using checkpoint_iff_improves [OF r l1]
    by (simp add: ex_run)
  from l2 two one ex_run_saved show ?thesis by blast
qed

text \<open>
  The claim as stated fails at the first epoch: in a run whose first validation pass
  finds no correct prediction, the accuracy \<open>0\<close> of epoch 0 exceeds every earlier
  accuracy (there is none), and no checkpoint is written.
\<close>

theorem first_epoch_save_counterexample:
  "val_accuracies (fst (Engine_train ex_world_zero ex_engine_patched (ex_train_config 1))) = [0]
   \<and> saved (fst (Engine_train ex_world_zero ex_engine_patched (ex_train_config 1))) = []
   \<and> snd (Engine_train ex_world_zero ex_engine_patched (ex_train_config 1)) = None"
  by (simp add: Engine_train_def Let_def log_call_def py_range_def start_epoch_def
      num_epochs_def epoch_body_def Engine_train_one_epoch_def Engine_val_def
      train_batch_loss_def Engine_save_model_def ex_world_zero_def ex_world_def
      ex_engine_patched_def ex_engine_def ex_logger_def ex_train_config_def ex_batch_def)

text \<open>
  C1 (as amended). For a run resumed from a checkpoint of epoch \<open>E\<close> with a configured
  \<open>num_epochs = n\<close>, a call of \<open>_train\<close> that returns has run to their end exactly the
  epochs \<open>E..E+49\<close> if \<open>n < E\<close>, no epoch if \<open>n = E\<close>, and the epochs \<open>E..n-1\<close> if \<open>n > E\<close>.
  The call returns when the logger offers \<open>info\<close> and \<open>infov\<close>, the training and
  validation datasets are not empty, every validation pass has a batch and the
  attribute \<open>num_clsses\<close> can be read.
\<close>

theorem resumed_epoch_range:
  assumes "checkpoint e = Some c" and "cfg_num_epochs tc = Some n"
  shows "(\<forall>st. Engine_train w e tc = (st, None) \<longrightarrow>
            (n < epoch c \<longrightarrow> epochs_completed (logged st) = [epoch c..epoch c + 49])
          \<and> (n = epoch c \<longrightarrow> epochs_completed (logged st) = [])
          \<and> (epoch c < n \<longrightarrow> epochs_completed (logged st) = [epoch c..n - 1]))
     \<and> (''info'' \<in> set (methods (engine_log e)) \<and> ''infov'' \<in> set (methods (engine_log e))
          \<and> 0 < train_len e \<and> 0 < val_len e \<and> num_clsses e \<noteq> None
          \<and> (\<forall>ep. val_run w ep \<noteq> [])
        \<longrightarrow> (\<exists>st. Engine_train w e tc = (st, None)))"
proof -
  from assms have s: "start_epoch e = epoch c"
    and n: "num_epochs e tc = (if n < epoch c then epoch c + 50 else n)"
    by (simp_all add: start_epoch_def num_epochs_def)
  have a: "\<forall>st. Engine_train w e tc = (st, None) \<longrightarrow>
            (n < epoch c \<longrightarrow> epochs_completed (logged st) = [epoch c..epoch c + 49])
          \<and> (n = epoch c \<longrightarrow> epochs_completed (logged st) = [])
          \<and> (epoch c < n \<longrightarrow> epochs_completed (logged st) = [epoch c..n - 1])"
  proof (intro allI impI)
    fix st assume "Engine_train w e tc = (st, None)"
    from Engine_train_completed [OF this]
    have "epochs_completed (logged st) = [epoch c..(if n < epoch c then epoch c + 50 else n) - 1]"
      by (simp add: s n py_range_def)
    then show "(n < epoch c \<longrightarrow> epochs_completed (logged st) = [epoch c..epoch c + 49])
          \<and> (n = epoch c \<longrightarrow> epochs_completed (logged st) = [])
          \<and> (epoch c < n \<longrightarrow> epochs_completed (logged st) = [epoch c..n - 1])"
      by (auto simp: add.commute)
  qed
  have b: "''info'' \<in> set (methods (engine_log e)) \<and> ''infov'' \<in> set (methods (engine_log e))
          \<and> 0 < train_len e \<and> 0 < val_len e \<and> num_clsses e \<noteq> None
          \<and> (\<forall>ep. val_run w ep \<noteq> [])
        \<longrightarrow> (\<exists>st. Engine_train w e tc = (st, None))"
  proof
    assume h: "''info'' \<in> set (methods (engine_log e)) \<and> ''infov'' \<in> set (methods (engine_log e))
          \<and> 0 < train_len e \<and> 0 < val_len e \<and> num_clsses e \<noteq> None
          \<and> (\<forall>ep. val_run w ep \<noteq> [])"
    then obtain k where "num_clsses e = Some k" by blast
    with h show "\<exists>st. Engine_train w e tc = (st, None)"
      by (intro Engine_train_returns [of e k w tc]) simp_all
  qed
  from a b show ?thesis by blast
qed

theorem resumed_epoch_range_witness:
  "checkpoint (ex_engine_resumed 3) = Some \<lparr>epoch = 3\<rparr>
   \<and> cfg_num_epochs (ex_train_config 2) = Some 2
   \<and> (\<exists>st. Engine_train ex_world (ex_engine_resumed 3) (ex_train_config 2) = (st, None)
          \<and> epochs_completed (logged st) = [3..52]
          \<and> length (epochs_completed (logged st)) = 50)"
proof -
  have c: "checkpoint (ex_engine_resumed 3) = Some \<lparr>epoch = 3\<rparr>"
    by (simp add: ex_engine_resumed_def)
  have n: "cfg_num_epochs (ex_train_config 2) = Some 2"
    by (simp add: ex_train_config_def)
  note t = resumed_epoch_range [OF c n, of ex_world]
  have h: "''info'' \<in> set (methods (engine_log (ex_engine_resumed 3)))
      \<and> ''infov'' \<in> set (methods (engine_log (ex_engine_resumed 3)))
      \<and> 0 < train_len (ex_engine_resumed 3) \<and> 0 < val_len (ex_engine_resumed 3)
      \<and> num_clsses (ex_engine_resumed 3) \<noteq> None
      \<and> (\<forall>ep. val_run ex_world ep \<noteq> [])"
    by (simp add: ex_engine_resumed_def ex_engine_patched_def ex_engine_def ex_logger_def
        ex_world_def)
  with t obtain st where
    st: "Engine_train ex_world (ex_engine_resumed 3) (ex_train_config 2) = (st, None)"
    by blast
  with t have "epochs_completed (logged st) = [3..52]"
    by simp
  with c n st show ?thesis by simp
qed

text \<open>
  The claim as stated fails at \<open>num_epochs = E\<close>: resumed from a checkpoint of epoch 50
  with \<open>num_epochs = 50\<close>, the bound stays 50 and the call returns without running any
  epoch, where the claim has it run the epochs 50 to 99.
\<close>

theorem resumed_equal_epochs_counterexample:
  "checkpoint (ex_engine_resumed 50) = Some \<lparr>epoch = 50\<rparr>
   \<and> cfg_num_epochs (ex_train_config 50) = Some 50
   \<and> num_epochs (ex_engine_resumed 50) (ex_train_config 50) = 50
   \<and> Engine_train ex_world (ex_engine_resumed 50) (ex_train_config 50)
       = (\<lparr>best_acc = 0, val_accuracies = [], saved = [],
            logged = [(''info'', TrainingStarts 50 50)]\<rparr>, None)
   \<and> epochs_completed [(''info'', TrainingStarts 50 50)] = []"
  by (simp add: Engine_train_def Let_def log_call_def py_range_def start_epoch_def
      num_epochs_def ex_engine_resumed_def ex_engine_patched_def ex_engine_def
      ex_logger_def ex_train_config_def)

end
